theory Spec2Isabelle
  imports Main "HOL-Library.Sublist"
begin

section \<open>The error taxonomy of AuthError.ts\<close>

text \<open>
  The module declares six classes, each extending the previous level, and the
  library's \<^verbatim>\<open>index.ts\<close> re-exports some of them. The embedding follows the later of
  the two revisions of the module (the one with \<^verbatim>\<open>ServerError\<close>,
  \<^verbatim>\<open>ConfigurationAuthError\<close>, \<^verbatim>\<open>interactionType\<close> and \<^verbatim>\<open>claimsRequired\<close>), which is the
  one whose names \<^verbatim>\<open>index.ts\<close> imports.
\<close>

subsection \<open>Classes and the prototype chain\<close>

text \<open>
  A class tag stands for the class's \<^verbatim>\<open>prototype\<close> object. \<open>Error\<close> is the built-in
  root; the other six are the \<^verbatim>\<open>export class\<close> declarations of the module.
\<close>

datatype cls =
    Error
  | AuthError
  | ClientAuthError
  | ConfigurationAuthError
  | ServerError
  | InteractionRequiredAuthError
  | ClaimsRequiredAuthError

text \<open>The \<^verbatim>\<open>extends\<close> clause of every class declaration.\<close>

fun extends :: "cls \<Rightarrow> cls option" where
  "extends Error = None"
| "extends AuthError = Some Error"
| "extends ClientAuthError = Some AuthError"
| "extends ConfigurationAuthError = Some ClientAuthError"
| "extends ServerError = Some AuthError"
| "extends InteractionRequiredAuthError = Some ServerError"
| "extends ClaimsRequiredAuthError = Some InteractionRequiredAuthError"

text \<open>The number of \<^verbatim>\<open>extends\<close> steps up to \<open>Error\<close>; it bounds the walk below.\<close>

fun depth :: "cls \<Rightarrow> nat" where
  "depth Error = 0"
| "depth AuthError = 1"
| "depth ClientAuthError = 2"
| "depth ConfigurationAuthError = 3"
| "depth ServerError = 2"
| "depth InteractionRequiredAuthError = 3"
| "depth ClaimsRequiredAuthError = 4"

text \<open>
  The prototype chain that starts at a class's prototype: the class itself, then
  what it extends, up to the root.
\<close>

function proto_chain :: "cls \<Rightarrow> cls list" where
  "proto_chain c = c # (case extends c of None \<Rightarrow> [] | Some p \<Rightarrow> proto_chain p)"
  by pat_completeness auto
termination
proof (relation "measure depth")
  show "wf (measure depth)" by simp
next
  fix c p
  assume "extends c = Some p"
  then show "(p, c) \<in> measure depth" by (cases c) auto
qed

declare proto_chain.simps [simp del]

subsection \<open>Instances\<close>

text \<open>
  An instance carries the prototype that the last \<^verbatim>\<open>Object.setPrototypeOf\<close> of its
  construction installed, the fields that \<^verbatim>\<open>Error\<close> and \<^verbatim>\<open>AuthError\<close> assign, and the
  two fields of the lower levels. A field that no constructor has assigned reads
  \<^verbatim>\<open>undefined\<close>, which is \<open>None\<close>. The \<^verbatim>\<open>stack\<close> field is a trace of the host's call
  stack and is left out.
\<close>

record auth_error =
  proto :: cls
  name :: string
  message :: string
  tokenRequestType :: string
  userState :: string
  interactionType :: "string option"
  claimsRequired :: "string option"

text \<open>\<^verbatim>\<open>e instanceof C\<close>: the prototype of \<open>C\<close> lies on the prototype chain of \<open>e\<close>.\<close>

definition instanceOf :: "auth_error \<Rightarrow> cls \<Rightarrow> bool" where
  "instanceOf e c = (c \<in> set (proto_chain (proto e)))"

subsection \<open>Constructors\<close>

text \<open>
  Every constructor calls \<^verbatim>\<open>super\<close> first, then overwrites \<^verbatim>\<open>name\<close> and installs its
  own prototype.
\<close>

definition new_AuthError :: "string \<Rightarrow> string \<Rightarrow> string \<Rightarrow> auth_error" where
  "new_AuthError msg tokenRequestType' userState' =
     \<lparr> proto = AuthError,
       name = ''AuthError'',
       message = msg,
       tokenRequestType = tokenRequestType',
       userState = userState',
       interactionType = None,
       claimsRequired = None \<rparr>"

definition new_ClientAuthError :: "string \<Rightarrow> string \<Rightarrow> string \<Rightarrow> auth_error" where
  "new_ClientAuthError msg tokenRequestType' userState' =
     (new_AuthError msg tokenRequestType' userState')
       \<lparr> name := ''ClientAuthError'', proto := ClientAuthError \<rparr>"

definition new_ConfigurationAuthError :: "string \<Rightarrow> string \<Rightarrow> string \<Rightarrow> auth_error" where
  "new_ConfigurationAuthError msg tokenType userState' =
     (new_ClientAuthError msg tokenType userState')
       \<lparr> name := ''ConfigurationAuthError'', proto := ConfigurationAuthError \<rparr>"

definition new_ServerError :: "string \<Rightarrow> string \<Rightarrow> string \<Rightarrow> auth_error" where
  "new_ServerError msg tokenType userState' =
     (new_AuthError msg tokenType userState')
       \<lparr> name := ''ServerError'', proto := ServerError \<rparr>"

definition new_InteractionRequiredAuthError :: "string \<Rightarrow> string \<Rightarrow> string \<Rightarrow> auth_error" where
  "new_InteractionRequiredAuthError msg tokenType userState' =
     (new_ServerError msg tokenType userState')
       \<lparr> name := ''InteractionRequiredAuthError'', proto := InteractionRequiredAuthError \<rparr>"

definition new_ClaimsRequiredAuthError ::
  "string \<Rightarrow> string \<Rightarrow> string \<Rightarrow> string \<Rightarrow> auth_error" where
  "new_ClaimsRequiredAuthError msg tokenType userState' claimsRequired' =
     (new_InteractionRequiredAuthError msg tokenType userState')
       \<lparr> name := ''ClaimsRequiredAuthError'',
         claimsRequired := Some claimsRequired',
         proto := ClaimsRequiredAuthError \<rparr>"

text \<open>The one instance method of the module.\<close>

definition setInteractionType :: "auth_error \<Rightarrow> string \<Rightarrow> auth_error" where
  "setInteractionType this interactionType' = this \<lparr> interactionType := Some interactionType' \<rparr>"

subsection \<open>What the module imports\<close>

text \<open>
  \<^verbatim>\<open>Utils.isEmpty\<close> and the two cache-location values of \<^verbatim>\<open>Constants\<close> are declared
  in other modules; the factories that read them take them as a parameter.
\<close>

record module_imports =
  Utils_isEmpty :: "string \<Rightarrow> bool"
  Constants_cacheLocationLocal :: string
  Constants_cacheLocationSession :: string

text \<open>
  The three callback factories take a \<^verbatim>\<open>number\<close> and use it in one way only: as an
  operand of a string concatenation, where the language converts it to a string.
  That conversion is the language's, not the module's, so a number is given here
  by the string it converts to: \<open>3\<close> by \<open>''3''\<close>, a half by \<open>''0.5''\<close>, the
  not-a-number value by \<open>''NaN''\<close>, ten to the power 21 by \<open>''1e+21''\<close>.
  \<open>Number_toString\<close> reads that string.
\<close>

datatype number = Number (Number_toString: string)

subsection \<open>Factories of ClientAuthError\<close>

definition createEndpointResolutionError ::
  "module_imports \<Rightarrow> string \<Rightarrow> string \<Rightarrow> string \<Rightarrow> auth_error" where
  "createEndpointResolutionError I errDesc tokenType userState' =
     (let errorMessage = ''Error in Could not resolve endpoints. Please check network and try again.'';
          errorMessage = (if \<not> Utils_isEmpty I errDesc
                          then errorMessage @ '' Details: '' @ errDesc
                          else errorMessage)
      in new_ClientAuthError errDesc tokenType userState')"

definition createMultipleMatchingTokensInCacheError ::
  "string \<Rightarrow> string \<Rightarrow> string \<Rightarrow> auth_error" where
  "createMultipleMatchingTokensInCacheError scope tokenType userState' =
     new_ClientAuthError
       (''Cache error for scope '' @ scope @
        '': The cache contains multiple tokens satisfying the requirements. Call AcquireToken again providing more requirements like authority.'')
       tokenType userState'"

definition createMultipleAuthoritiesInCacheError ::
  "string \<Rightarrow> string \<Rightarrow> string \<Rightarrow> auth_error" where
  "createMultipleAuthoritiesInCacheError scope tokenType userState' =
     new_ClientAuthError
       (''Cache error for scope '' @ scope @
        '': Multiple authorities found in the cache. Pass authority in the API overload.'')
       tokenType userState'"

definition createPopupWindowError :: "string \<Rightarrow> string \<Rightarrow> auth_error" where
  "createPopupWindowError tokenType userState' =
     new_ClientAuthError
       ''Error opening popup window. This can happen if you are using IE or if popups are blocked in the browser.''
       tokenType userState'"

definition createTokenRenewalTimeoutError :: "string \<Rightarrow> string \<Rightarrow> auth_error" where
  "createTokenRenewalTimeoutError tokenType userState' =
     new_ClientAuthError ''Token renewal operation failed due to timeout.'' tokenType userState'"

definition createInvalidStateError ::
  "string \<Rightarrow> string \<Rightarrow> string \<Rightarrow> string \<Rightarrow> auth_error" where
  "createInvalidStateError invalidState actualState tokenType userState' =
     new_ClientAuthError
       (''Invalid state: '' @ invalidState @ '', should be state: '' @ actualState)
       tokenType userState'"

definition createNonceMismatchError ::
  "string \<Rightarrow> string \<Rightarrow> string \<Rightarrow> string \<Rightarrow> auth_error" where
  "createNonceMismatchError invalidNonce actualNonce tokenType userState' =
     new_ClientAuthError
       (''Invalid nonce: '' @ invalidNonce @ '', should be nonce: '' @ actualNonce)
       tokenType userState'"

definition createLoginInProgressError :: "string \<Rightarrow> string \<Rightarrow> auth_error" where
  "createLoginInProgressError tokenType userState' =
     new_ClientAuthError
       ''Login_In_Progress: Error during login call - login is already in progress.''
       tokenType userState'"

definition createAcquireTokenInProgressError :: "string \<Rightarrow> string \<Rightarrow> auth_error" where
  "createAcquireTokenInProgressError tokenType userState' =
     new_ClientAuthError
       ''AcquireToken_In_Progress: Error during login call - login is already in progress.''
       tokenType userState'"

definition createUserCancelledError :: "string \<Rightarrow> string \<Rightarrow> auth_error" where
  "createUserCancelledError tokenType userState' =
     new_ClientAuthError ''User_Cancelled: User cancelled '' tokenType userState'"

subsection \<open>Factories of ConfigurationAuthError\<close>

definition createInvalidCacheLocationConfigError ::
  "module_imports \<Rightarrow> string \<Rightarrow> string \<Rightarrow> string \<Rightarrow> auth_error" where
  "createInvalidCacheLocationConfigError I givenCacheLocation tokenType userState' =
     new_ConfigurationAuthError
       (''Cache Location is not valid. Provided value:'' @ givenCacheLocation @
        ''. Possible values are: '' @ Constants_cacheLocationLocal I @ '', '' @
        Constants_cacheLocationSession I)
       tokenType userState'"

definition createNoCallbackGivenError :: "string \<Rightarrow> string \<Rightarrow> auth_error" where
  "createNoCallbackGivenError tokenType userState' =
     new_ConfigurationAuthError
       ''Error in configuration: no callback(s) registered for login/acquireTokenRedirect flows. Plesae call handleRedirectCallbacks() with the appropriate callback signatures. More information is available here: https://github.com/AzureAD/microsoft-authentication-library-for-js/wiki/-basics''
       tokenType userState'"

definition createCallbackParametersError :: "number \<Rightarrow> string \<Rightarrow> string \<Rightarrow> auth_error" where
  "createCallbackParametersError numArgs tokenType userState' =
     new_ConfigurationAuthError
       (''Error occurred in callback - incorrect number of arguments, expected 2, got '' @
        Number_toString numArgs @ ''.'')
       tokenType userState'"

definition createSuccessCallbackParametersError ::
  "number \<Rightarrow> string \<Rightarrow> string \<Rightarrow> auth_error" where
  "createSuccessCallbackParametersError numArgs tokenType userState' =
     new_ConfigurationAuthError
       (''Error occurred in callback for successful token response - incorrect number of arguments, expected 1, got '' @
        Number_toString numArgs @ ''.'')
       tokenType userState'"

definition createErrorCallbackParametersError ::
  "number \<Rightarrow> string \<Rightarrow> string \<Rightarrow> auth_error" where
  "createErrorCallbackParametersError numArgs tokenType userState' =
     new_ConfigurationAuthError
       (''Error occurred in callback for error response - incorrect number of arguments, expected 1, got '' @
        Number_toString numArgs @ ''.'')
       tokenType userState'"

definition createEmptyScopesArrayError :: "string \<Rightarrow> string \<Rightarrow> string \<Rightarrow> auth_error" where
  "createEmptyScopesArrayError scopesValue tokenType userState' =
     new_ConfigurationAuthError
       (''Scopes cannot be passed as empty array. Given value: '' @ scopesValue)
       tokenType userState'"

definition createScopesNonArrayError :: "string \<Rightarrow> string \<Rightarrow> string \<Rightarrow> auth_error" where
  "createScopesNonArrayError scopesValue tokenType userState' =
     new_ConfigurationAuthError
       (''Scopes cannot be passed as non-array. Given value: '' @ scopesValue)
       tokenType userState'"

definition createClientIdSingleScopeError :: "string \<Rightarrow> string \<Rightarrow> string \<Rightarrow> auth_error" where
  "createClientIdSingleScopeError scopesValue tokenType userState' =
     new_ConfigurationAuthError
       (''Client ID can only be provided as a single scope. Given value: '' @ scopesValue)
       tokenType userState'"

subsection \<open>Factories of ServerError\<close>

definition createServerUnavailableError :: "string \<Rightarrow> string \<Rightarrow> auth_error" where
  "createServerUnavailableError tokenType userState' =
     new_ServerError ''Server is temporarily unavailable.'' tokenType userState'"

definition createUnknownServerError :: "string \<Rightarrow> string \<Rightarrow> string \<Rightarrow> auth_error" where
  "createUnknownServerError errorDesc tokenType userState' =
     new_ServerError '''' tokenType userState'"

subsection \<open>Factories of InteractionRequiredAuthError\<close>

definition createLoginRequiredAuthError :: "string \<Rightarrow> string \<Rightarrow> auth_error" where
  "createLoginRequiredAuthError tokenType userState' =
     new_InteractionRequiredAuthError ''login_required: User must login.'' tokenType userState'"

definition createInteractionRequiredAuthError ::
  "string \<Rightarrow> string \<Rightarrow> string \<Rightarrow> auth_error" where
  "createInteractionRequiredAuthError errorDesc tokenType userState' =
     new_InteractionRequiredAuthError (''interaction_required: '' @ errorDesc) tokenType userState'"

definition createConsentRequiredAuthError ::
  "string \<Rightarrow> string \<Rightarrow> string \<Rightarrow> auth_error" where
  "createConsentRequiredAuthError errorDesc tokenType userState' =
     new_InteractionRequiredAuthError (''consent_required: '' @ errorDesc) tokenType userState'"

subsection \<open>The factory operations as one family\<close>

text \<open>
  One constructor per static factory of the module, holding the scenario's own
  arguments; \<open>invoke\<close> calls the factory with them and with the two universal
  arguments \<^verbatim>\<open>tokenType\<close> and \<^verbatim>\<open>userState\<close>.
\<close>

datatype factory =
    CreateEndpointResolutionError string
  | CreateMultipleMatchingTokensInCacheError string
  | CreateMultipleAuthoritiesInCacheError string
  | CreatePopupWindowError
  | CreateTokenRenewalTimeoutError
  | CreateInvalidStateError string string
  | CreateNonceMismatchError string string
  | CreateLoginInProgressError
  | CreateAcquireTokenInProgressError
  | CreateUserCancelledError
  | CreateInvalidCacheLocationConfigError string
  | CreateNoCallbackGivenError
  | CreateCallbackParametersError number
  | CreateSuccessCallbackParametersError number
  | CreateErrorCallbackParametersError number
  | CreateEmptyScopesArrayError string
  | CreateScopesNonArrayError string
  | CreateClientIdSingleScopeError string
  | CreateServerUnavailableError
  | CreateUnknownServerError string
  | CreateLoginRequiredAuthError
  | CreateInteractionRequiredAuthError string
  | CreateConsentRequiredAuthError string

fun invoke :: "module_imports \<Rightarrow> factory \<Rightarrow> string \<Rightarrow> string \<Rightarrow> auth_error" where
  "invoke I (CreateEndpointResolutionError d) t s = createEndpointResolutionError I d t s"
| "invoke I (CreateMultipleMatchingTokensInCacheError d) t s =
     createMultipleMatchingTokensInCacheError d t s"
| "invoke I (CreateMultipleAuthoritiesInCacheError d) t s =
     createMultipleAuthoritiesInCacheError d t s"
| "invoke I CreatePopupWindowError t s = createPopupWindowError t s"
| "invoke I CreateTokenRenewalTimeoutError t s = createTokenRenewalTimeoutError t s"
| "invoke I (CreateInvalidStateError a b) t s = createInvalidStateError a b t s"
| "invoke I (CreateNonceMismatchError a b) t s = createNonceMismatchError a b t s"
| "invoke I CreateLoginInProgressError t s = createLoginInProgressError t s"
| "invoke I CreateAcquireTokenInProgressError t s = createAcquireTokenInProgressError t s"
| "invoke I CreateUserCancelledError t s = createUserCancelledError t s"
| "invoke I (CreateInvalidCacheLocationConfigError d) t s =
     createInvalidCacheLocationConfigError I d t s"
| "invoke I CreateNoCallbackGivenError t s = createNoCallbackGivenError t s"
| "invoke I (CreateCallbackParametersError n) t s = createCallbackParametersError n t s"
| "invoke I (CreateSuccessCallbackParametersError n) t s =
     createSuccessCallbackParametersError n t s"
| "invoke I (CreateErrorCallbackParametersError n) t s =
     createErrorCallbackParametersError n t s"
| "invoke I (CreateEmptyScopesArrayError d) t s = createEmptyScopesArrayError d t s"
| "invoke I (CreateScopesNonArrayError d) t s = createScopesNonArrayError d t s"
| "invoke I (CreateClientIdSingleScopeError d) t s = createClientIdSingleScopeError d t s"
| "invoke I CreateServerUnavailableError t s = createServerUnavailableError t s"
| "invoke I (CreateUnknownServerError d) t s = createUnknownServerError d t s"
| "invoke I CreateLoginRequiredAuthError t s = createLoginRequiredAuthError t s"
| "invoke I (CreateInteractionRequiredAuthError d) t s =
     createInteractionRequiredAuthError d t s"
| "invoke I (CreateConsentRequiredAuthError d) t s = createConsentRequiredAuthError d t s"

text \<open>The class whose body declares the static factory.\<close>

fun declaring_class :: "factory \<Rightarrow> cls" where
  "declaring_class (CreateEndpointResolutionError d) = ClientAuthError"
| "declaring_class (CreateMultipleMatchingTokensInCacheError d) = ClientAuthError"
| "declaring_class (CreateMultipleAuthoritiesInCacheError d) = ClientAuthError"
| "declaring_class CreatePopupWindowError = ClientAuthError"
| "declaring_class CreateTokenRenewalTimeoutError = ClientAuthError"
| "declaring_class (CreateInvalidStateError a b) = ClientAuthError"
| "declaring_class (CreateNonceMismatchError a b) = ClientAuthError"
| "declaring_class CreateLoginInProgressError = ClientAuthError"
| "declaring_class CreateAcquireTokenInProgressError = ClientAuthError"
| "declaring_class CreateUserCancelledError = ClientAuthError"
| "declaring_class (CreateInvalidCacheLocationConfigError d) = ConfigurationAuthError"
| "declaring_class CreateNoCallbackGivenError = ConfigurationAuthError"
| "declaring_class (CreateCallbackParametersError n) = ConfigurationAuthError"
| "declaring_class (CreateSuccessCallbackParametersError n) = ConfigurationAuthError"
| "declaring_class (CreateErrorCallbackParametersError n) = ConfigurationAuthError"
| "declaring_class (CreateEmptyScopesArrayError d) = ConfigurationAuthError"
| "declaring_class (CreateScopesNonArrayError d) = ConfigurationAuthError"
| "declaring_class (CreateClientIdSingleScopeError d) = ConfigurationAuthError"
| "declaring_class CreateServerUnavailableError = ServerError"
| "declaring_class (CreateUnknownServerError d) = ServerError"
| "declaring_class CreateLoginRequiredAuthError = InteractionRequiredAuthError"
| "declaring_class (CreateInteractionRequiredAuthError d) = InteractionRequiredAuthError"
| "declaring_class (CreateConsentRequiredAuthError d) = InteractionRequiredAuthError"

text \<open>The identifier of each class declaration.\<close>

fun class_name :: "cls \<Rightarrow> string" where
  "class_name Error = ''Error''"
| "class_name AuthError = ''AuthError''"
| "class_name ClientAuthError = ''ClientAuthError''"
| "class_name ConfigurationAuthError = ''ConfigurationAuthError''"
| "class_name ServerError = ''ServerError''"
| "class_name InteractionRequiredAuthError = ''InteractionRequiredAuthError''"
| "class_name ClaimsRequiredAuthError = ''ClaimsRequiredAuthError''"

text \<open>
  The ancestor chain of each variant as the specification's tree draws it, from
  the variant up to the root \<open>AuthError\<close>; it is what the prototype chains of the
  code are compared with. The built-in \<open>Error\<close> is no variant of the taxonomy.
\<close>

fun documented_chain :: "cls \<Rightarrow> cls list" where
  "documented_chain Error = []"
| "documented_chain AuthError = [AuthError]"
| "documented_chain ClientAuthError = [ClientAuthError, AuthError]"
| "documented_chain ConfigurationAuthError =
     [ConfigurationAuthError, ClientAuthError, AuthError]"
| "documented_chain ServerError = [ServerError, AuthError]"
| "documented_chain InteractionRequiredAuthError =
     [InteractionRequiredAuthError, ServerError, AuthError]"
| "documented_chain ClaimsRequiredAuthError =
     [ClaimsRequiredAuthError, InteractionRequiredAuthError, ServerError, AuthError]"

subsection \<open>The public surface: index.ts\<close>

text \<open>
  Each \<^verbatim>\<open>export { ... } from "..."\<close> statement of \<^verbatim>\<open>index.ts\<close>, in order: the names it
  re-exports and the module they come from.
\<close>

definition index_exports :: "(string list \<times> string) list" where
  "index_exports =
     [([''UserAgentApplication''], ''./UserAgentApplication''),
      ([''Logger''], ''./Logger''),
      ([''LogLevel''], ''./Logger''),
      ([''Account''], ''./Account''),
      ([''Constants''], ''./Constants''),
      ([''TokenResponse''], ''./RequestInfo''),
      ([''Authority''], ''./Authority''),
      ([''CacheResult''], ''./UserAgentApplication''),
      ([''TConfiguration''], ''./Configuration''),
      ([''AuthError'', ''ClientAuthError'', ''ConfigurationAuthError'',
        ''InteractionRequiredAuthError'', ''ServerError''], ''./AuthError''),
      ([''Configuration''], ''./Configuration''),
      ([''AuthResponse''], ''./Response'')]"

definition exported_names :: "string list" where
  "exported_names = concat (map fst index_exports)"

definition reexported_from :: "string \<Rightarrow> string list" where
  "reexported_from m = concat (map fst (filter (\<lambda>st. snd st = m) index_exports))"

text \<open>The \<^verbatim>\<open>export class\<close> declarations of the error module, in order.\<close>

definition AuthError_module_exports :: "string list" where
  "AuthError_module_exports =
     map class_name
       [AuthError, ClientAuthError, ConfigurationAuthError, ServerError,
        InteractionRequiredAuthError, ClaimsRequiredAuthError]"

subsection \<open>What the holder of an instance can do to it\<close>

text \<open>
  The classes declare their fields without \<^verbatim>\<open>private\<close> or \<^verbatim>\<open>readonly\<close>:
  \<^verbatim>\<open>tokenRequestType\<close> and \<^verbatim>\<open>userState\<close> in \<open>AuthError\<close>, \<^verbatim>\<open>interactionType\<close> in
  \<open>InteractionRequiredAuthError\<close>; \<^verbatim>\<open>name\<close> and \<^verbatim>\<open>message\<close> are the writable fields of
  the built-in \<open>Error\<close>. So code that holds an \<open>InteractionRequiredAuthError\<close> can
  call its one method or assign a string to any of these fields.
\<close>

datatype action =
    Call_setInteractionType string
  | Assign_name string
  | Assign_message string
  | Assign_tokenRequestType string
  | Assign_userState string
  | Assign_interactionType string

fun perform :: "auth_error \<Rightarrow> action \<Rightarrow> auth_error" where
  "perform e (Call_setInteractionType v) = setInteractionType e v"
| "perform e (Assign_name v) = e \<lparr> name := v \<rparr>"
| "perform e (Assign_message v) = e \<lparr> message := v \<rparr>"
| "perform e (Assign_tokenRequestType v) = e \<lparr> tokenRequestType := v \<rparr>"
| "perform e (Assign_userState v) = e \<lparr> userState := v \<rparr>"
| "perform e (Assign_interactionType v) = e \<lparr> interactionType := Some v \<rparr>"

text \<open>The actions of a trace, performed from left to right.\<close>

fun run :: "auth_error \<Rightarrow> action list \<Rightarrow> auth_error" where
  "run e [] = e"
| "run e (a # acts) = run (perform e a) acts"

text \<open>Whether an action is a call of the method.\<close>

fun is_setInteractionType_call :: "action \<Rightarrow> bool" where
  "is_setInteractionType_call (Call_setInteractionType v) = True"
| "is_setInteractionType_call a = False"

text \<open>Whether an action writes the field: the method's call or the direct assignment.\<close>

fun writes_interactionType :: "action \<Rightarrow> bool" where
  "writes_interactionType (Call_setInteractionType v) = True"
| "writes_interactionType (Assign_interactionType v) = True"
| "writes_interactionType a = False"

section \<open>Properties\<close>

subsection \<open>Unfolding and evaluation\<close>

lemmas ctor_defs =
  new_AuthError_def new_ClientAuthError_def new_ConfigurationAuthError_def
  new_ServerError_def new_InteractionRequiredAuthError_def new_ClaimsRequiredAuthError_def

lemmas factory_defs =
  createEndpointResolutionError_def createMultipleMatchingTokensInCacheError_def
  createMultipleAuthoritiesInCacheError_def createPopupWindowError_def
  createTokenRenewalTimeoutError_def createInvalidStateError_def
  createNonceMismatchError_def createLoginInProgressError_def
  createAcquireTokenInProgressError_def createUserCancelledError_def
  createInvalidCacheLocationConfigError_def createNoCallbackGivenError_def
  createCallbackParametersError_def createSuccessCallbackParametersError_def
  createErrorCallbackParametersError_def createEmptyScopesArrayError_def
  createScopesNonArrayError_def createClientIdSingleScopeError_def
  createServerUnavailableError_def createUnknownServerError_def
  createLoginRequiredAuthError_def createInteractionRequiredAuthError_def
  createConsentRequiredAuthError_def

lemma proto_chain_eval:
  "proto_chain Error = [Error]"
  "proto_chain AuthError = [AuthError, Error]"
  "proto_chain ClientAuthError = [ClientAuthError, AuthError, Error]"
  "proto_chain ConfigurationAuthError = [ConfigurationAuthError, ClientAuthError, AuthError, Error]"
  "proto_chain ServerError = [ServerError, AuthError, Error]"
  "proto_chain InteractionRequiredAuthError = [InteractionRequiredAuthError, ServerError, AuthError, Error]"
  "proto_chain ClaimsRequiredAuthError =
     [ClaimsRequiredAuthError, InteractionRequiredAuthError, ServerError, AuthError, Error]"
  by (simp_all add: proto_chain.simps)

lemma invoke_proto: "proto (invoke I f t s) = declaring_class f"
  by (cases f) (simp_all add: factory_defs ctor_defs Let_def)

lemma invoke_name: "name (invoke I f t s) = class_name (declaring_class f)"
  by (cases f) (simp_all add: factory_defs ctor_defs Let_def)

lemma invoke_tokenRequestType: "tokenRequestType (invoke I f t s) = t"
  by (cases f) (simp_all add: factory_defs ctor_defs Let_def)

lemma invoke_userState: "userState (invoke I f t s) = s"
  by (cases f) (simp_all add: factory_defs ctor_defs Let_def)

lemma invoke_interactionType: "interactionType (invoke I f t s) = None"
  by (cases f) (simp_all add: factory_defs ctor_defs Let_def)

lemma documented_chain_on_proto_chain:
  "c \<in> set (documented_chain k) \<Longrightarrow> c \<in> set (proto_chain k)"
  by (cases k) (auto simp: proto_chain_eval)

lemma instanceOf_InteractionRequired_up:
  "instanceOf e InteractionRequiredAuthError \<Longrightarrow> instanceOf e ServerError \<and> instanceOf e AuthError"
  unfolding instanceOf_def by (cases "proto e") (simp_all add: proto_chain_eval)

lemma instanceOf_ClaimsRequired_up:
  "instanceOf e ClaimsRequiredAuthError \<Longrightarrow>
     instanceOf e InteractionRequiredAuthError \<and> instanceOf e ServerError \<and> instanceOf e AuthError"
  unfolding instanceOf_def by (cases "proto e") (simp_all add: proto_chain_eval)

lemma createEndpointResolutionError_message:
  "message (createEndpointResolutionError I errDesc tokenType userState') = errDesc"
  by (simp add: createEndpointResolutionError_def Let_def ctor_defs)

lemma createUnknownServerError_message:
  "message (createUnknownServerError errorDesc tokenType userState') = []"
  by (simp add: createUnknownServerError_def ctor_defs)

lemma createNonceMismatchError_message:
  "message (createNonceMismatchError invalidNonce actualNonce tokenType userState') =
     ''Invalid nonce: '' @ invalidNonce @ '', should be nonce: '' @ actualNonce"
  by (simp add: createNonceMismatchError_def ctor_defs)

lemma createInvalidCacheLocationConfigError_message:
  "message (createInvalidCacheLocationConfigError I givenCacheLocation tokenType userState') =
     ''Cache Location is not valid. Provided value:'' @ givenCacheLocation @
     ''. Possible values are: '' @ Constants_cacheLocationLocal I @ '', '' @
     Constants_cacheLocationSession I"
  by (simp add: createInvalidCacheLocationConfigError_def ctor_defs)

lemma createInvalidCacheLocationConfigError_proto:
  "proto (createInvalidCacheLocationConfigError I givenCacheLocation tokenType userState') =
     ConfigurationAuthError"
  by (simp add: createInvalidCacheLocationConfigError_def ctor_defs)

lemma sublist_in_middle: "sublist xs (as @ bs @ cs @ xs @ ds)"
proof -
  have "as @ bs @ cs @ xs @ ds = (as @ bs @ cs) @ xs @ ds" by simp
  then show ?thesis unfolding sublist_def by blast
qed

lemma sublist_at_end: "sublist xs (as @ bs @ cs @ ds @ es @ xs)"
proof -
  have "as @ bs @ cs @ ds @ es @ xs = (as @ bs @ cs @ ds @ es) @ xs @ []" by simp
  then show ?thesis unfolding sublist_def by blast
qed

text \<open>
  C1. Whatever factory is called, the \<open>name\<close> of the instance it returns is the
  identifier of the class that declares the factory, and the instance passes the
  \<^verbatim>\<open>instanceof\<close> test for every variant on the documented chain of that class.
  Any instance of \<open>InteractionRequiredAuthError\<close> is an instance of \<open>ServerError\<close>
  and of the root \<open>AuthError\<close>, and any instance of \<open>ClaimsRequiredAuthError\<close> is
  moreover an instance of \<open>InteractionRequiredAuthError\<close>. The two constructors return
  the instance itself, holding every argument they were given: nothing is wrapped
  and nothing is dropped when the instance is handled at a coarser level.
\<close>

theorem factory_name_and_ancestry:
  "name (invoke I f t s) = class_name (declaring_class f)
   \<and> (\<forall>c \<in> set (documented_chain (declaring_class f)). instanceOf (invoke I f t s) c)
   \<and> (instanceOf e InteractionRequiredAuthError \<longrightarrow>
        instanceOf e ServerError \<and> instanceOf e AuthError)
   \<and> (instanceOf e ClaimsRequiredAuthError \<longrightarrow>
        instanceOf e InteractionRequiredAuthError \<and> instanceOf e ServerError \<and> instanceOf e AuthError)
   \<and> new_InteractionRequiredAuthError m tt u =
        \<lparr> proto = InteractionRequiredAuthError, name = ''InteractionRequiredAuthError'',
          message = m, tokenRequestType = tt, userState = u,
          interactionType = None, claimsRequired = None \<rparr>
   \<and> new_ClaimsRequiredAuthError m tt u cr =
        \<lparr> proto = ClaimsRequiredAuthError, name = ''ClaimsRequiredAuthError'',
          message = m, tokenRequestType = tt, userState = u,
          interactionType = None, claimsRequired = Some cr \<rparr>"
proof -
  have ancestry: "\<forall>c \<in> set (documented_chain (declaring_class f)). instanceOf (invoke I f t s) c"
    by (simp add: instanceOf_def invoke_proto documented_chain_on_proto_chain)
  have ir: "new_InteractionRequiredAuthError m tt u =
        \<lparr> proto = InteractionRequiredAuthError, name = ''InteractionRequiredAuthError'',
          message = m, tokenRequestType = tt, userState = u,
          interactionType = None, claimsRequired = None \<rparr>"
    by (simp add: ctor_defs)
  have cr: "new_ClaimsRequiredAuthError m tt u cr =
        \<lparr> proto = ClaimsRequiredAuthError, name = ''ClaimsRequiredAuthError'',
          message = m, tokenRequestType = tt, userState = u,
          interactionType = None, claimsRequired = Some cr \<rparr>"
    by (simp add: ctor_defs)
  from invoke_name ancestry instanceOf_InteractionRequired_up instanceOf_ClaimsRequired_up ir cr
  show ?thesis by blast
qed

text \<open>
  The statement of C1 at the login-required factory and at a claims-required
  instance.
\<close>

theorem factory_name_and_ancestry_witness:
  "instanceOf (new_ClaimsRequiredAuthError ''claims needed'' ''idtoken'' ''s1'' ''{}'')
     ClaimsRequiredAuthError
   \<and> instanceOf (new_ClaimsRequiredAuthError ''claims needed'' ''idtoken'' ''s1'' ''{}'')
       InteractionRequiredAuthError
   \<and> instanceOf (new_ClaimsRequiredAuthError ''claims needed'' ''idtoken'' ''s1'' ''{}'')
       ServerError
   \<and> instanceOf (new_ClaimsRequiredAuthError ''claims needed'' ''idtoken'' ''s1'' ''{}'')
       AuthError
   \<and> ServerError \<in> set (documented_chain (declaring_class CreateLoginRequiredAuthError))
   \<and> instanceOf
       (invoke \<lparr> Utils_isEmpty = (\<lambda>x. x = []),
                 Constants_cacheLocationLocal = ''localStorage'',
                 Constants_cacheLocationSession = ''sessionStorage'' \<rparr>
          CreateLoginRequiredAuthError ''idtoken'' ''state-123'')
       ServerError
   \<and> name
       (invoke \<lparr> Utils_isEmpty = (\<lambda>x. x = []),
                 Constants_cacheLocationLocal = ''localStorage'',
                 Constants_cacheLocationSession = ''sessionStorage'' \<rparr>
          CreateLoginRequiredAuthError ''idtoken'' ''state-123'') =
       ''InteractionRequiredAuthError''"
proof -
  have claims: "instanceOf (new_ClaimsRequiredAuthError ''claims needed'' ''idtoken'' ''s1'' ''{}'')
     ClaimsRequiredAuthError"
    by (simp add: instanceOf_def ctor_defs proto_chain_eval)
  have member: "ServerError \<in> set (documented_chain (declaring_class CreateLoginRequiredAuthError))"
    by simp
  have nm: "class_name (declaring_class CreateLoginRequiredAuthError) = ''InteractionRequiredAuthError''"
    by simp
  from claims member nm
    factory_name_and_ancestry
      [of "\<lparr> Utils_isEmpty = (\<lambda>x. x = []),
             Constants_cacheLocationLocal = ''localStorage'',
             Constants_cacheLocationSession = ''sessionStorage'' \<rparr>"
          CreateLoginRequiredAuthError "''idtoken''" "''state-123''"
          "new_ClaimsRequiredAuthError ''claims needed'' ''idtoken'' ''s1'' ''{}''"]
  show ?thesis by metis
qed

text \<open>
  C2. Whatever factory is called with token type \<open>t\<close> and user state \<open>s\<close>, the
  returned instance has \<open>tokenRequestType\<close> equal to \<open>t\<close> and \<open>userState\<close> equal
  to \<open>s\<close>.
\<close>

theorem factory_roundtrip:
  "tokenRequestType (invoke I f t s) = t \<and> userState (invoke I f t s) = s"
  by (simp add: invoke_tokenRequestType invoke_userState)

text \<open>
  C3. The claim is that \<open>createEndpointResolutionError\<close> puts the endpoint-resolution
  text followed by the details into the message. The factory builds that text in
  \<^verbatim>\<open>errorMessage\<close> and then passes \<^verbatim>\<open>errDesc\<close> to the constructor: called with the
  description \<open>timeout\<close>, the message is \<open>timeout\<close> alone and does not contain
  \<open>Could not resolve endpoints\<close>.
\<close>

theorem endpoint_resolution_message_at_timeout:
  "message
     (createEndpointResolutionError
        \<lparr> Utils_isEmpty = (\<lambda>x. x = []),
          Constants_cacheLocationLocal = ''localStorage'',
          Constants_cacheLocationSession = ''sessionStorage'' \<rparr>
        ''timeout'' ''idtoken'' ''s1'') = ''timeout''
   \<and> \<not> sublist ''Could not resolve endpoints''
       (message
          (createEndpointResolutionError
             \<lparr> Utils_isEmpty = (\<lambda>x. x = []),
               Constants_cacheLocationLocal = ''localStorage'',
               Constants_cacheLocationSession = ''sessionStorage'' \<rparr>
             ''timeout'' ''idtoken'' ''s1''))"
  by (simp add: createEndpointResolutionError_message sublist_Cons_right)

text \<open>
  C4. The claim is that \<open>createUnknownServerError\<close> returns a non-empty message built
  from its description. The factory passes the empty string to the constructor and
  never reads \<^verbatim>\<open>errorDesc\<close>: called with the description \<open>invalid_grant\<close>, the
  message is empty.
\<close>

theorem unknown_server_message_at_invalid_grant:
  "message (createUnknownServerError ''invalid_grant'' ''idtoken'' ''s1'') = ''''"
  by (simp add: createUnknownServerError_message)

text \<open>
  C5, as stated, fails: \<open>ClaimsRequiredAuthError\<close> is exported by the error module
  and is not among the names that \<^verbatim>\<open>index.ts\<close> exports.
\<close>

theorem ClaimsRequiredAuthError_not_reexported:
  "''ClaimsRequiredAuthError'' \<in> set AuthError_module_exports
   \<and> ''ClaimsRequiredAuthError'' \<notin> set exported_names"
  by (simp add: exported_names_def index_exports_def AuthError_module_exports_def)

text \<open>
  C5, amended. From the error module \<^verbatim>\<open>index.ts\<close> re-exports \<open>AuthError\<close>,
  \<open>ClientAuthError\<close>, \<open>ConfigurationAuthError\<close>, \<open>InteractionRequiredAuthError\<close> and
  \<open>ServerError\<close>; the one class of the module that it leaves out is
  \<open>ClaimsRequiredAuthError\<close>; and every name it re-exports from the module is one of
  the module's classes.
\<close>

theorem index_reexports_of_AuthError_module:
  "reexported_from ''./AuthError'' =
     [''AuthError'', ''ClientAuthError'', ''ConfigurationAuthError'',
      ''InteractionRequiredAuthError'', ''ServerError'']
   \<and> filter (\<lambda>n. n \<notin> set exported_names) AuthError_module_exports =
       [''ClaimsRequiredAuthError'']
   \<and> filter (\<lambda>n. n \<notin> set AuthError_module_exports) (reexported_from ''./AuthError'') = []"
  by (simp add: reexported_from_def exported_names_def index_exports_def
      AuthError_module_exports_def)

text \<open>
  C6. After \<open>setInteractionType e v\<close> the field \<open>interactionType\<close> reads \<open>v\<close>, and
  \<open>name\<close>, \<open>message\<close>, \<open>tokenRequestType\<close>, \<open>userState\<close>, \<open>claimsRequired\<close> and the
  prototype are those of \<open>e\<close>. This holds for every instance, so in particular for
  every instance of \<open>InteractionRequiredAuthError\<close>.
\<close>

theorem setInteractionType_frame:
  "interactionType (setInteractionType e v) = Some v
   \<and> name (setInteractionType e v) = name e
   \<and> message (setInteractionType e v) = message e
   \<and> tokenRequestType (setInteractionType e v) = tokenRequestType e
   \<and> userState (setInteractionType e v) = userState e
   \<and> claimsRequired (setInteractionType e v) = claimsRequired e
   \<and> proto (setInteractionType e v) = proto e"
  by (simp add: setInteractionType_def)

text \<open>
  C7. A \<open>ClaimsRequiredAuthError\<close> built with the claims payload \<open>c\<close> has
  \<open>claimsRequired\<close> equal to \<open>c\<close>, untransformed; the instance passes the
  \<^verbatim>\<open>instanceof\<close> test at the root \<open>AuthError\<close> level and the narrowing test for
  \<open>ClaimsRequiredAuthError\<close>, so the payload is readable after the narrowing.
\<close>

theorem claimsRequired_roundtrip:
  "claimsRequired (new_ClaimsRequiredAuthError m t u c) = Some c
   \<and> instanceOf (new_ClaimsRequiredAuthError m t u c) AuthError
   \<and> instanceOf (new_ClaimsRequiredAuthError m t u c) ClaimsRequiredAuthError"
  by (simp add: ctor_defs instanceOf_def proto_chain_eval)

text \<open>
  C8. \<open>createInvalidCacheLocationConfigError\<close> called with \<open>foo\<close>, \<open>idtoken\<close> and
  \<open>s1\<close> returns an instance of \<open>ConfigurationAuthError\<close> and of \<open>ClientAuthError\<close>
  whose message contains \<open>foo\<close> and both cache-location values, whatever these two
  constants are.
\<close>

theorem invalid_cache_location_foo:
  "instanceOf (createInvalidCacheLocationConfigError I ''foo'' ''idtoken'' ''s1'')
     ConfigurationAuthError
   \<and> instanceOf (createInvalidCacheLocationConfigError I ''foo'' ''idtoken'' ''s1'')
       ClientAuthError
   \<and> sublist ''foo'' (message (createInvalidCacheLocationConfigError I ''foo'' ''idtoken'' ''s1''))
   \<and> sublist (Constants_cacheLocationLocal I)
       (message (createInvalidCacheLocationConfigError I ''foo'' ''idtoken'' ''s1''))
   \<and> sublist (Constants_cacheLocationSession I)
       (message (createInvalidCacheLocationConfigError I ''foo'' ''idtoken'' ''s1''))"
  unfolding createInvalidCacheLocationConfigError_message instanceOf_def
    createInvalidCacheLocationConfigError_proto
  by (intro conjI sublist_appendI sublist_in_middle sublist_at_end)
     (simp_all add: proto_chain_eval)

text \<open>
  C9. \<open>createNonceMismatchError\<close> called with \<open>n1\<close>, \<open>n2\<close>, \<open>idtoken\<close> and \<open>s1\<close>
  returns the message \<open>Invalid nonce: n1, should be nonce: n2\<close>: it contains \<open>n1\<close>
  and, later, \<open>n2\<close>.
\<close>

theorem nonce_mismatch_n1_n2:
  "message (createNonceMismatchError ''n1'' ''n2'' ''idtoken'' ''s1'') =
     ''Invalid nonce: n1, should be nonce: n2''
   \<and> (\<exists>p q r. message (createNonceMismatchError ''n1'' ''n2'' ''idtoken'' ''s1'') =
                 p @ ''n1'' @ q @ ''n2'' @ r)"
proof -
  have m: "message (createNonceMismatchError ''n1'' ''n2'' ''idtoken'' ''s1'') =
     ''Invalid nonce: '' @ ''n1'' @ '', should be nonce: '' @ ''n2'' @ []"
    by (simp add: createNonceMismatchError_message)
  have "message (createNonceMismatchError ''n1'' ''n2'' ''idtoken'' ''s1'') =
     ''Invalid nonce: n1, should be nonce: n2''"
    by (simp add: createNonceMismatchError_message)
  with m show ?thesis by blast
qed

lemma perform_keeps_interactionType:
  "\<not> writes_interactionType a \<Longrightarrow> interactionType (perform e a) = interactionType e"
  by (cases a) simp_all

lemma run_keeps_interactionType:
  "\<not> list_ex writes_interactionType acts \<Longrightarrow>
     interactionType (run e acts) = interactionType e"
proof (induction acts arbitrary: e)
  case Nil
  show ?case by simp
next
  case (Cons a acts)
  from Cons.prems
  have a: "\<not> writes_interactionType a" and r: "\<not> list_ex writes_interactionType acts"
    by simp_all
  have "interactionType (run (perform e a) acts) = interactionType (perform e a)"
    using r by (rule Cons.IH)
  with a show ?case by (simp add: perform_keeps_interactionType)
qed

text \<open>
  C10, as stated, fails: on the instance that \<open>createLoginRequiredAuthError\<close> returns,
  the direct assignment of \<open>popup\<close> to the public field gives \<open>interactionType\<close> a
  value, and the trace holds no call of \<open>setInteractionType\<close>.
\<close>

theorem interactionType_assigned_without_setter:
  "interactionType
     (run (createLoginRequiredAuthError ''idtoken'' ''state-123'')
        [Assign_interactionType ''popup'']) = Some ''popup''
   \<and> \<not> list_ex is_setInteractionType_call [Assign_interactionType ''popup'']"
  by simp

text \<open>
  C10, amended. The three factories of \<open>InteractionRequiredAuthError\<close> return an
  instance whose \<open>interactionType\<close> is unset. On the result of any factory, whatever
  the holder then does, the field has a value only if the trace holds a write to
  it, which is a call of \<open>setInteractionType\<close> or a direct assignment to the field;
  calls and assignments that concern the other fields never give it one. A call
  of \<open>setInteractionType\<close> does give it its argument.
\<close>

theorem interactionType_unset_until_written:
  "interactionType (createLoginRequiredAuthError t s) = None
   \<and> interactionType (createInteractionRequiredAuthError d t s) = None
   \<and> interactionType (createConsentRequiredAuthError d t s) = None
   \<and> (interactionType (run (invoke I f t s) acts) \<noteq> None \<longrightarrow>
        list_ex writes_interactionType acts)
   \<and> interactionType (perform e (Call_setInteractionType v)) = Some v"
proof -
  have only_writes:
    "interactionType (run (invoke I f t s) acts) \<noteq> None \<longrightarrow>
       list_ex writes_interactionType acts"
  proof (rule impI, rule ccontr)
    assume written: "interactionType (run (invoke I f t s) acts) \<noteq> None"
      and no_write: "\<not> list_ex writes_interactionType acts"
    have "interactionType (run (invoke I f t s) acts) = interactionType (invoke I f t s)"
      using no_write by (rule run_keeps_interactionType)
    with written show False by (simp add: invoke_interactionType)
  qed
  have "interactionType (createLoginRequiredAuthError t s) = None"
    and "interactionType (createInteractionRequiredAuthError d t s) = None"
    and "interactionType (createConsentRequiredAuthError d t s) = None"
    by (simp_all add: createLoginRequiredAuthError_def createInteractionRequiredAuthError_def
        createConsentRequiredAuthError_def ctor_defs)
  moreover have "interactionType (perform e (Call_setInteractionType v)) = Some v"
    by (simp add: setInteractionType_def)
  ultimately show ?thesis using only_writes by blast
qed

text \<open>
  The statement of C10 at the consent-required factory and a trace that assigns
  the user state and then calls the method.
\<close>

theorem interactionType_unset_until_written_witness:
  "interactionType
     (run (invoke \<lparr> Utils_isEmpty = (\<lambda>x. x = []),
                    Constants_cacheLocationLocal = ''localStorage'',
                    Constants_cacheLocationSession = ''sessionStorage'' \<rparr>
             (CreateConsentRequiredAuthError ''scope api'') ''accesstoken'' ''s7'')
        [Assign_userState ''s8'', Call_setInteractionType ''redirect'']) \<noteq> None
   \<and> list_ex writes_interactionType
       [Assign_userState ''s8'', Call_setInteractionType ''redirect'']"
proof -
  have written: "interactionType
     (run (invoke \<lparr> Utils_isEmpty = (\<lambda>x. x = []),
                    Constants_cacheLocationLocal = ''localStorage'',
                    Constants_cacheLocationSession = ''sessionStorage'' \<rparr>
             (CreateConsentRequiredAuthError ''scope api'') ''accesstoken'' ''s7'')
        [Assign_userState ''s8'', Call_setInteractionType ''redirect'']) \<noteq> None"
    by (simp add: setInteractionType_def)
  from written
    interactionType_unset_until_written
      [where I = "\<lparr> Utils_isEmpty = (\<lambda>x. x = []),
                       Constants_cacheLocationLocal = ''localStorage'',
                       Constants_cacheLocationSession = ''sessionStorage'' \<rparr>"
         and f = "CreateConsentRequiredAuthError ''scope api''"
         and t = "''accesstoken''" and s = "''s7''"
         and acts = "[Assign_userState ''s8'', Call_setInteractionType ''redirect'']"]
  show ?thesis by blast
qed

end
